theory Spec2Isabelle
  imports Main
begin

section \<open>Common conventions\<close>

text \<open>
  Strings are lists of characters; the characters of the model are the code points
  below 256. A Python exception is a value of \<open>py_error\<close>, and a function that may raise
  returns a sum whose left injection is the exception.
\<close>

datatype py_error = ValueError | IndexError | AttributeError | DriverError | ServiceUnavailable
  | ClientError | RecursionError | FileNotFoundError

section \<open>Connection parameters (credentials.py)\<close>

text \<open>
  The process environment \<open>os.environ\<close> is a dictionary from names to values. A command
  line option that was not given is \<open>None\<close>.
\<close>

type_synonym environ = "string \<rightharpoonup> string"

definition environ_get :: "environ \<Rightarrow> string \<Rightarrow> string \<Rightarrow> string" where
  \<comment> \<open>\<open>os.environ.get(key, default)\<close>\<close>
  "environ_get env key dflt = (case env key of None \<Rightarrow> dflt | Some v \<Rightarrow> v)"

definition py_or :: "string option \<Rightarrow> string \<Rightarrow> string" where
  \<comment> \<open>\<open>x or y\<close> for an optional string \<open>x\<close>: \<open>None\<close> and the empty string are falsy\<close>
  "py_or x y = (case x of None \<Rightarrow> y | Some s \<Rightarrow> if s = [] then y else s)"

definition get_neo4j_credentials ::
  "environ \<Rightarrow> string option \<Rightarrow> string option \<Rightarrow> string option \<Rightarrow> string \<times> string \<times> string" where
  "get_neo4j_credentials env uri username password =
     (let uri = py_or uri (environ_get env ''NEO4J_URI'' ''bolt://localhost:7687'');
          username = py_or username (environ_get env ''NEO4J_USERNAME'' ''neo4j'');
          password = py_or password (environ_get env ''NEO4J_PASSWORD'' ''neo4j'')
      in (uri, username, password))"

section \<open>Tree Builder (markdown_parser.py)\<close>

text \<open>
  An \<open>xml.etree.ElementTree.Element\<close>, as the Markdown engine hands it to the tree
  processor: tag, text, child elements and tail. A \<open>text\<close> or \<open>tail\<close> that is \<open>None\<close>
  is the empty string (\<open>itertext\<close> skips both alike).
\<close>

datatype Element =
  Element (el_tag: string) (el_text: string) (el_children: "Element list") (el_tail: string)

fun itertext :: "Element \<Rightarrow> string list" where
  "itertext (Element tg tx cs ta) =
     (if tx = [] then [] else [tx]) @
     concat (map (\<lambda>e. itertext e @ (if el_tail e = [] then [] else [el_tail e])) cs)"

definition isspace :: "char \<Rightarrow> bool" where
  \<comment> \<open>the whitespace of \<open>str.strip()\<close> among the code points below 256\<close>
  "isspace c = (let n = (of_char c :: nat) in
                  (9 \<le> n \<and> n \<le> 13) \<or> (28 \<le> n \<and> n \<le> 32) \<or> n = 133 \<or> n = 160)"

definition strip :: "string \<Rightarrow> string" where
  "strip s = rev (dropWhile isspace (rev (dropWhile isspace s)))"

text \<open>
  \<open>MarkdownNode\<close> objects are mutable and refer to each other (\<open>parent\<close>, \<open>children\<close>,
  the processor's \<open>heading_stack\<close> and \<open>current_node\<close>), so the builder works on a store:
  the list of all nodes created so far, a reference being the index of a node in it.
  The root is created first and has reference 0.
\<close>

record MarkdownNode =
  node_type :: string
  content :: string
  level :: int
  parent :: "nat option"
  children :: "nat list"
  node_id :: "string option"

definition new_node :: "string \<Rightarrow> string \<Rightarrow> int \<Rightarrow> MarkdownNode" where
  \<comment> \<open>\<open>MarkdownNode(node_type, content, level)\<close>\<close>
  "new_node t c l = \<lparr>node_type = t, content = c, level = l, parent = None, children = [],
                     node_id = None\<rparr>"

definition add_child :: "nat \<Rightarrow> nat \<Rightarrow> MarkdownNode list \<Rightarrow> MarkdownNode list" where
  \<comment> \<open>\<open>p.add_child(c)\<close>: \<open>c.parent = p; p.children.append(c)\<close>\<close>
  "add_child p c ns =
     (let ns1 = ns[c := (ns ! c)\<lparr>parent := Some p\<rparr>]
      in ns1[p := (ns1 ! p)\<lparr>children := children (ns1 ! p) @ [c]\<rparr>])"

text \<open>
  The processor. The Python list \<open>heading_stack\<close> is used as a stack whose top is its
  last element; the model keeps the top at the head of the list, so \<open>heading_stack[-1]\<close>
  is the head and \<open>len(heading_stack) > 1\<close> says that something lies above the root.
\<close>

record MarkdownTreeProcessor =
  nodes :: "MarkdownNode list"
  current_node :: nat
  heading_stack :: "nat list"

definition init_processor :: MarkdownTreeProcessor where
  \<comment> \<open>\<open>MarkdownTreeProcessor.__init__\<close>\<close>
  "init_processor = \<lparr>nodes = [new_node ''root'' [] 0], current_node = 0, heading_stack = [0]\<rparr>"

fun pop_headings :: "MarkdownNode list \<Rightarrow> int \<Rightarrow> nat list \<Rightarrow> nat list" where
  \<comment> \<open>\<open>while len(stack) > 1 and stack[-1].level >= level: stack.pop()\<close>\<close>
  "pop_headings ns l (a # b # stk) =
     (if level (ns ! a) \<ge> l then pop_headings ns l (b # stk) else a # b # stk)"
| "pop_headings ns l stk = stk"

definition int_of_char :: "char \<Rightarrow> py_error + int" where
  \<comment> \<open>\<open>int(c)\<close> for a one-character string: a decimal digit, or \<open>ValueError\<close>\<close>
  "int_of_char c = (let n = (of_char c :: nat) in
                      if 48 \<le> n \<and> n \<le> 57 then Inr (int n - 48) else Inl ValueError)"

definition handle_heading ::
  "Element \<Rightarrow> MarkdownTreeProcessor \<Rightarrow> py_error + MarkdownTreeProcessor" where
  \<comment> \<open>the heading branch of \<open>_process_element\<close>\<close>
  "handle_heading element st =
     (case int_of_char (el_tag element ! 1) of
        Inl e \<Rightarrow> Inl e
      | Inr lvl \<Rightarrow>
          (let cont = strip (concat (itertext element));
               stk = pop_headings (nodes st) lvl (heading_stack st)
           in case stk of
                [] \<Rightarrow> Inl IndexError
              | tp # _ \<Rightarrow>
                  (let node = length (nodes st);
                       ns = add_child tp node (nodes st @ [new_node ''heading'' cont lvl])
                   in Inr (st\<lparr>nodes := ns, heading_stack := node # stk,
                               current_node := node\<rparr>))))"

definition handle_paragraph :: "Element \<Rightarrow> MarkdownTreeProcessor \<Rightarrow> MarkdownTreeProcessor" where
  \<comment> \<open>the paragraph branch of \<open>_process_element\<close>\<close>
  "handle_paragraph element st =
     (let cont = strip (concat (itertext element))
      in if cont \<noteq> [] then
           (let node = length (nodes st);
                ns = add_child (current_node st) node (nodes st @ [new_node ''paragraph'' cont 0])
            in st\<lparr>nodes := ns\<rparr>)
         else st)"

definition is_heading_tag :: "string \<Rightarrow> bool" where
  \<comment> \<open>\<open>tag.startswith("h") and len(tag) == 2\<close>\<close>
  "is_heading_tag tg = (take 1 tg = ''h'' \<and> length tg = 2)"

fun process_element :: "Element \<Rightarrow> MarkdownTreeProcessor \<Rightarrow> py_error + MarkdownTreeProcessor"
and process_elements :: "Element list \<Rightarrow> MarkdownTreeProcessor \<Rightarrow> py_error + MarkdownTreeProcessor"
where
  "process_element (Element tg tx cs ta) st =
     (case (if is_heading_tag tg then handle_heading (Element tg tx cs ta) st
            else if tg = ''p'' then Inr (handle_paragraph (Element tg tx cs ta) st)
            else Inr st) of
        Inl e \<Rightarrow> Inl e
      | Inr st' \<Rightarrow> process_elements cs st')"
| "process_elements [] st = Inr st"
| "process_elements (c # cs) st =
     (case process_element c st of Inl e \<Rightarrow> Inl e | Inr st' \<Rightarrow> process_elements cs st')"

definition run :: "Element \<Rightarrow> py_error + MarkdownTreeProcessor" where
  \<comment> \<open>\<open>MarkdownTreeProcessor.run\<close> on a freshly initialised processor\<close>
  "run root = process_element root init_processor"

subsection \<open>What the builder is expected to produce\<close>



definition shape :: "MarkdownNode list \<Rightarrow> (string \<times> int \<times> string) list" where
  "shape ns = map (\<lambda>n. (node_type n, level n, content n)) ns"



text \<open>
  Two documents: the first scenario of the specification, and a document whose only
  heading has no text, followed by a paragraph of blanks.
\<close>

definition doc1 :: Element where
  "doc1 = Element ''div'' [] [Element ''h1'' ''Header 1'' [] [CHR 0x0A],
      Element ''p'' ''Some paragraph'' [] [CHR 0x0A],
      Element ''h2'' ''Header 2'' [] [CHR 0x0A],
      Element ''p'' ''Another paragraph'' [] [CHR 0x0A]] []"

definition doc1_result :: MarkdownTreeProcessor where
  "doc1_result = \<lparr>nodes =
        [\<lparr>node_type = ''root'', content = [], level = 0, parent = None,
            children = [1], node_id = None\<rparr>,
         \<lparr>node_type = ''heading'', content = ''Header 1'', level = 1,
            parent = Some 0, children = [2, 3], node_id = None\<rparr>,
         \<lparr>node_type = ''paragraph'', content = ''Some paragraph'',
            level = 0, parent = Some 1, children = [], node_id = None\<rparr>,
         \<lparr>node_type = ''heading'', content = ''Header 2'', level = 2,
            parent = Some 1, children = [4], node_id = None\<rparr>,
         \<lparr>node_type = ''paragraph'', content = ''Another paragraph'',
            level = 0, parent = Some 3, children = [], node_id = None\<rparr>],
        current_node = 3, heading_stack = [3, 1, 0]\<rparr>"

definition doc_empty_heading :: Element where
  "doc_empty_heading =
     Element ''div'' [] [Element ''h1'' [] [] [CHR 0x0A], Element ''p'' '' '' [] []] []"

section \<open>The graph store and the logger (neo4j_graph.py, logger.py)\<close>

text \<open>
  Everything outside the program is one record, the world: the contents of the graph
  database (nodes with their properties, and \<open>CONTAINS\<close> edges between node entities,
  an entity being the index of a node in \<open>db_nodes\<close>), the statements the server has
  received, the number of statements the connection will still carry before it is lost
  (\<open>None\<close>: it is never lost), and the logger with the two output streams.

  A stored node has the properties the writer gives it: \<open>id\<close>, \<open>type\<close> and \<open>content\<close> are
  strings, \<open>level\<close> is an integer or absent. A statement parameter is a string, an
  integer or null (Python's \<open>None\<close>); an id that is not a string matches no node.
\<close>

datatype pvalue = StrV string | IntV int | NullV

type_synonym params = "(string \<times> pvalue) list"

record pnode =
  p_id :: string
  p_type :: string
  p_content :: string
  p_level :: "int option"

record world =
  db_nodes :: "pnode list"
  db_edges :: "(nat \<times> nat) list"
  sent :: "(string \<times> params) list"
  budget :: "nat option"
  log_level :: string
  stderr :: "string list"
  stdout :: "string list"

text \<open>The logger: a message is written to standard error when its level does not exceed the
  logger's level; an unknown level counts as 0.\<close>

definition LEVELS :: "string \<rightharpoonup> nat" where
  "LEVELS = [''ERROR'' \<mapsto> 0, ''WARNING'' \<mapsto> 1, ''INFO'' \<mapsto> 2, ''DEBUG'' \<mapsto> 3, ''TRACE'' \<mapsto> 4]"

definition should_log :: "world \<Rightarrow> string \<Rightarrow> bool" where
  "should_log w lv = ((case LEVELS lv of None \<Rightarrow> 0 | Some n \<Rightarrow> n)
                        \<le> (case LEVELS (log_level w) of None \<Rightarrow> 0 | Some n \<Rightarrow> n))"

definition log_line :: "string \<Rightarrow> string \<Rightarrow> world \<Rightarrow> world" where
  "log_line lv message w =
     (if should_log w lv then w\<lparr>stderr := stderr w @ [lv @ '': '' @ message]\<rparr> else w)"

text \<open>The texts of the six Cypher statements, as the source writes them.\<close>

definition nl :: string where "nl = [CHR 0x0A]"
definition sq :: string where "sq = [CHR 0x27]"

definition q_clear :: string where
  "q_clear = ''MATCH (n) DETACH DELETE n''"

definition q_create_root :: string where
  "q_create_root = nl @ ''        CREATE (n:Node {id: $id, type: $type, content: $content})''
                 @ nl @ ''        RETURN n'' @ nl @ ''        ''"

definition q_create_node :: string where
  "q_create_node =
     nl @ ''                CREATE (n:Node {id: $id, type: $type, content: $content, level: $level})''
   @ nl @ ''                RETURN n'' @ nl @ ''                ''"

definition q_create_rel :: string where
  "q_create_rel =
     nl @ ''                MATCH (parent:Node {id: $parent_id})''
   @ nl @ ''                MATCH (child:Node {id: $child_id})''
   @ nl @ ''                CREATE (parent)-[:CONTAINS]->(child)'' @ nl @ ''                ''"

definition q_root :: string where
  "q_root = nl @ ''        MATCH (n:Node {type: '' @ sq @ ''root'' @ sq @ ''})''
          @ nl @ ''        RETURN n'' @ nl @ ''        ''"

definition q_children :: string where
  "q_children =
     nl @ ''        MATCH (parent:Node {id: $node_id})-[:CONTAINS]->(child:Node)''
   @ nl @ ''        RETURN child''
   @ nl @ ''        ORDER BY child.level, child.id'' @ nl @ ''        ''"

text \<open>
  What the database does with the six statements. \<open>ORDER BY child.level, child.id\<close> sorts
  ascending, a missing level after every present one, ids as strings by code point.
\<close>

definition level_less :: "int option \<Rightarrow> int option \<Rightarrow> bool" where
  "level_less a b = (case a of None \<Rightarrow> False
                     | Some x \<Rightarrow> (case b of None \<Rightarrow> True | Some y \<Rightarrow> x < y))"

fun str_less :: "string \<Rightarrow> string \<Rightarrow> bool" where
  "str_less [] [] = False"
| "str_less [] (y # ys) = True"
| "str_less (x # xs) [] = False"
| "str_less (x # xs) (y # ys) =
     ((of_char x :: nat) < of_char y \<or> (x = y \<and> str_less xs ys))"

definition child_le :: "pnode \<Rightarrow> pnode \<Rightarrow> bool" where
  "child_le a b = (level_less (p_level a) (p_level b) \<or>
                   (p_level a = p_level b \<and> \<not> str_less (p_id b) (p_id a)))"

fun insort_by :: "('a \<Rightarrow> 'a \<Rightarrow> bool) \<Rightarrow> 'a \<Rightarrow> 'a list \<Rightarrow> 'a list" where
  "insort_by le x [] = [x]"
| "insort_by le x (y # ys) = (if le x y then x # y # ys else y # insort_by le x ys)"

definition order_by :: "('a \<Rightarrow> 'a \<Rightarrow> bool) \<Rightarrow> 'a list \<Rightarrow> 'a list" where
  "order_by le xs = foldr (insort_by le) xs []"

definition param_str :: "params \<Rightarrow> string \<Rightarrow> string option" where
  "param_str ps k = (case map_of ps k of Some (StrV s) \<Rightarrow> Some s | _ \<Rightarrow> None)"

definition param_int :: "params \<Rightarrow> string \<Rightarrow> int option" where
  "param_int ps k = (case map_of ps k of Some (IntV i) \<Rightarrow> Some i | _ \<Rightarrow> None)"

definition with_id :: "world \<Rightarrow> string \<Rightarrow> nat list" where
  "with_id w i = filter (\<lambda>a. p_id (db_nodes w ! a) = i) [0..<length (db_nodes w)]"

definition db_run :: "string \<Rightarrow> params \<Rightarrow> world \<Rightarrow> py_error + (pnode list \<times> world)" where
  "db_run query ps w =
     (if query = q_clear then Inr ([], w\<lparr>db_nodes := [], db_edges := []\<rparr>)
      else if query = q_create_root then
        (case (param_str ps ''id'', param_str ps ''type'', param_str ps ''content'') of
           (Some i, Some t, Some c) \<Rightarrow>
             (let n = \<lparr>p_id = i, p_type = t, p_content = c, p_level = None\<rparr>
              in Inr ([n], w\<lparr>db_nodes := db_nodes w @ [n]\<rparr>))
         | _ \<Rightarrow> Inl ClientError)
      else if query = q_create_node then
        (case (param_str ps ''id'', param_str ps ''type'', param_str ps ''content'',
               param_int ps ''level'') of
           (Some i, Some t, Some c, Some l) \<Rightarrow>
             (let n = \<lparr>p_id = i, p_type = t, p_content = c, p_level = Some l\<rparr>
              in Inr ([n], w\<lparr>db_nodes := db_nodes w @ [n]\<rparr>))
         | _ \<Rightarrow> Inl ClientError)
      else if query = q_create_rel then
        (case (map_of ps ''parent_id'', map_of ps ''child_id'') of
           (Some (StrV p), Some (StrV c)) \<Rightarrow>
             Inr ([], w\<lparr>db_edges := db_edges w @
                          concat (map (\<lambda>a. map (\<lambda>b. (a, b)) (with_id w c)) (with_id w p))\<rparr>)
         | (Some _, Some _) \<Rightarrow> Inr ([], w)
         | _ \<Rightarrow> Inl ClientError)
      else if query = q_root then
        Inr (filter (\<lambda>n. p_type n = ''root'') (db_nodes w), w)
      else if query = q_children then
        (case param_str ps ''node_id'' of
           Some i \<Rightarrow>
             Inr (order_by child_le
                    (map (\<lambda>(a, b). db_nodes w ! b)
                         (filter (\<lambda>(a, b). p_id (db_nodes w ! a) = i) (db_edges w))), w)
         | None \<Rightarrow> Inl ClientError)
      else Inl ClientError)"

text \<open>
  The \<open>Neo4jGraph\<close> object. Its \<open>driver\<close> is \<open>None\<close> until \<open>connect\<close> has run. A statement
  is refused without a driver (\<open>None\<close> has no \<open>session\<close>), on a closed driver, and when
  the connection is lost; otherwise the server runs it.
\<close>

datatype driver = Driver (closed: bool)

record Neo4jGraph =
  uri :: string
  username :: string
  password :: string
  driver :: "driver option"

type_synonym 'a result = "(py_error + 'a) \<times> world"

definition execute_query :: "Neo4jGraph \<Rightarrow> string \<Rightarrow> params \<Rightarrow> world \<Rightarrow> pnode list result" where
  "execute_query g query ps w =
     (let w1 = log_line ''DEBUG'' (''Executing query: '' @ query) w in
      case driver g of
        None \<Rightarrow> (Inl AttributeError, w1)
      | Some d \<Rightarrow>
          if closed d then (Inl DriverError, w1)
          else if budget w1 = Some 0 then (Inl ServiceUnavailable, w1)
          else
            (let w2 = w1\<lparr>budget := map_option (\<lambda>n. n - 1) (budget w1),
                          sent := sent w1 @ [(query, ps)]\<rparr>
             in case db_run query ps w2 of
                  Inl e \<Rightarrow> (Inl e, w2)
                | Inr (rows, w3) \<Rightarrow> (Inr rows, w3)))"

definition get_root_node :: "Neo4jGraph \<Rightarrow> world \<Rightarrow> pnode option result" where
  "get_root_node g w =
     (case execute_query g q_root [] w of
        (Inl e, w') \<Rightarrow> (Inl e, w')
      | (Inr rows, w') \<Rightarrow> (case rows of [] \<Rightarrow> (Inr None, w') | r # _ \<Rightarrow> (Inr (Some r), w')))"

definition get_children :: "Neo4jGraph \<Rightarrow> string \<Rightarrow> world \<Rightarrow> pnode list result" where
  "get_children g nid w = execute_query g q_children [(''node_id'', StrV nid)] w"

text \<open>
  The Graph Reader (traversal.py). \<open>render_child\<close> is the body of the loop of
  \<open>_traverse_node\<close> up to the recursive call. The recursion of \<open>_traverse_node\<close> is
  bounded by the interpreter: \<open>depth\<close> is the number of nested calls still allowed, and
  the call that exceeds it raises \<open>RecursionError\<close>.
\<close>

definition render_child :: "pnode \<Rightarrow> string list \<Rightarrow> string list" where
  "render_child child lines =
     (if p_type child = ''heading'' then
        (let lvl = (case p_level child of None \<Rightarrow> 1 | Some l \<Rightarrow> l);
             heading_prefix = replicate (nat lvl) (CHR ''#'')
         in lines @ [heading_prefix @ '' '' @ p_content child] @ [[]])
      else if p_type child = ''paragraph'' then
        lines @ [p_content child] @ [[]]
      else lines)"

fun traverse_node :: "nat \<Rightarrow> Neo4jGraph \<Rightarrow> string \<Rightarrow> string list \<Rightarrow> world \<Rightarrow> string list result"
and traverse_children :: "nat \<Rightarrow> Neo4jGraph \<Rightarrow> pnode list \<Rightarrow> string list \<Rightarrow> world \<Rightarrow> string list result"
where
  "traverse_node 0 g nid lines w = (Inl RecursionError, w)"
| "traverse_node (Suc depth) g nid lines w =
     (case get_children g nid w of
        (Inl e, w') \<Rightarrow> (Inl e, w')
      | (Inr kids, w') \<Rightarrow> traverse_children depth g kids lines w')"
| "traverse_children depth g [] lines w = (Inr lines, w)"
| "traverse_children depth g (child # rest) lines w =
     (case traverse_node depth g (p_id child) (render_child child lines) w of
        (Inl e, w') \<Rightarrow> (Inl e, w')
      | (Inr lines', w') \<Rightarrow> traverse_children depth g rest lines' w')"

fun join :: "string \<Rightarrow> string list \<Rightarrow> string" where
  "join sep [] = []"
| "join sep [x] = x"
| "join sep (x # y # ys) = x @ sep @ join sep (y # ys)"

definition traverse_and_print :: "nat \<Rightarrow> Neo4jGraph \<Rightarrow> world \<Rightarrow> string result" where
  "traverse_and_print depth g w =
     (let w1 = log_line ''INFO'' ''Traversing graph'' w in
      case get_root_node g w1 of
        (Inl e, w2) \<Rightarrow> (Inl e, w2)
      | (Inr None, w2) \<Rightarrow> (Inr [], log_line ''ERROR'' ''Root node not found in graph'' w2)
      | (Inr (Some root_node), w2) \<Rightarrow>
          (case traverse_node depth g (p_id root_node) [] w2 of
             (Inl e, w3) \<Rightarrow> (Inl e, w3)
           | (Inr markdown_lines, w3) \<Rightarrow> (Inr (join nl markdown_lines), w3)))"

text \<open>Example worlds: an empty store, and the graph of the second scenario, once with the
  paragraph's level stored as 0 and once with no level on the paragraph.\<close>

definition world0 :: world where
  "world0 = \<lparr>db_nodes = [], db_edges = [], sent = [], budget = None, log_level = ''ERROR'',
             stderr = [], stdout = []\<rparr>"

definition graph0 :: Neo4jGraph where
  "graph0 = \<lparr>uri = ''bolt://localhost:7687'', username = ''neo4j'', password = ''neo4j'',
             driver = Some (Driver False)\<rparr>"

definition stored2 :: world where
  "stored2 = world0\<lparr>db_nodes :=
      [\<lparr>p_id = ''node_0'', p_type = ''root'', p_content = [], p_level = None\<rparr>,
       \<lparr>p_id = ''node_1'', p_type = ''heading'', p_content = ''Header 1'', p_level = Some 1\<rparr>,
       \<lparr>p_id = ''node_2'', p_type = ''paragraph'', p_content = ''Paragraph 1'', p_level = Some 0\<rparr>,
       \<lparr>p_id = ''node_3'', p_type = ''heading'', p_content = ''Header 2'', p_level = Some 2\<rparr>],
     db_edges := [(0, 1), (1, 2), (1, 3)]\<rparr>"

definition stored2_nolevel :: world where
  "stored2_nolevel = world0\<lparr>db_nodes :=
      [\<lparr>p_id = ''node_0'', p_type = ''root'', p_content = [], p_level = None\<rparr>,
       \<lparr>p_id = ''node_1'', p_type = ''heading'', p_content = ''Header 1'', p_level = Some 1\<rparr>,
       \<lparr>p_id = ''node_2'', p_type = ''paragraph'', p_content = ''Paragraph 1'', p_level = None\<rparr>,
       \<lparr>p_id = ''node_3'', p_type = ''heading'', p_content = ''Header 2'', p_level = Some 2\<rparr>],
     db_edges := [(0, 1), (1, 2), (1, 3)]\<rparr>"

definition stored_nolevel_heading :: world where
  "stored_nolevel_heading = world0\<lparr>db_nodes :=
      [\<lparr>p_id = ''node_0'', p_type = ''root'', p_content = [], p_level = None\<rparr>,
       \<lparr>p_id = ''node_1'', p_type = ''heading'', p_content = ''Title'', p_level = None\<rparr>],
     db_edges := [(0, 1)]\<rparr>"


definition stored_no_root :: world where
  "stored_no_root = world0\<lparr>db_nodes :=
      [\<lparr>p_id = ''node_1'', p_type = ''heading'', p_content = ''Header 1'', p_level = Some 1\<rparr>,
       \<lparr>p_id = ''node_2'', p_type = ''paragraph'', p_content = ''Paragraph 1'', p_level = Some 0\<rparr>],
     db_edges := [(0, 1)]\<rparr>"

section \<open>Graph Writer (neo4j_graph.py)\<close>

text \<open>
  The writer receives the root of a finished tree and never changes its shape: it reads
  \<open>node_type\<close>, \<open>content\<close>, \<open>level\<close> and \<open>children\<close> and writes the \<open>id\<close> field only. The tree
  is therefore a value of the datatype \<open>mtree\<close>; a reference to a node is its path from the
  root (the list of child indices) together with the subtree found there, and the \<open>id\<close>
  fields of all nodes are one map from paths to strings.
\<close>

datatype mtree = MTree (t_type: string) (t_content: string) (t_level: int) (t_children: "mtree list")

type_synonym path = "nat list"
type_synonym idmap = "path \<rightharpoonup> string"
type_synonym noderef = "path \<times> mtree"

text \<open>\<open>f"node_{n}"\<close>: the decimal numeral of a natural number.\<close>

definition digit_char :: "nat \<Rightarrow> char" where
  "digit_char d = ''0123456789'' ! d"

function str_of_nat :: "nat \<Rightarrow> string" where
  "str_of_nat n = (if n < 10 then [digit_char n] else str_of_nat (n div 10) @ [digit_char (n mod 10)])"
  by pat_completeness auto
termination
  by (relation "measure id") auto

definition str_of_int :: "int \<Rightarrow> string" where
  "str_of_int i = (if i < 0 then ''-'' @ str_of_nat (nat (- i)) else str_of_nat (nat i))"

definition node_name :: "nat \<Rightarrow> string" where
  "node_name n = ''node_'' @ str_of_nat n"

text \<open>
  The five loops of the writer (\<open>_assign_node_ids\<close>, \<open>_create_nodes\<close>, \<open>_create_relationships\<close>,
  \<open>_generate_node_queries\<close>, \<open>_generate_relationship_queries\<close>) are the same loop over an
  explicit stack of pairs (parent, child index), and differ only in what they do with a
  parent and its next child. \<open>walk\<close> is that loop, the action being \<open>visit\<close>; the state \<open>s\<close>
  holds what the loop updates (\<open>node_count\<close>, the ids, the queries, the world), and an
  action that raises ends the loop. The Python list \<open>stack\<close> has its top at the end; the
  model keeps it at the head. The loop terminates because the subtrees still to be
  visited shrink.
\<close>

fun weight :: "mtree \<Rightarrow> nat" where
  "weight (MTree ty c l cs) = 2 + sum_list (map weight cs)"

definition frame_weight :: "noderef \<times> nat \<Rightarrow> nat" where
  "frame_weight f = 1 + sum_list (map weight (drop (snd f) (t_children (snd (fst f)))))"

function walk :: "(noderef \<Rightarrow> noderef \<Rightarrow> 's \<Rightarrow> 'e + 's) \<Rightarrow> (noderef \<times> nat) list \<Rightarrow> 's \<Rightarrow> 'e + 's" where
  "walk visit [] s = Inr s"
| "walk visit ((par, child_index) # stack) s =
     (if child_index < length (t_children (snd par)) then
        (let child = (fst par @ [child_index], t_children (snd par) ! child_index);
             stack1 = (par, child_index + 1) # stack
         in case visit par child s of
              Inl e \<Rightarrow> Inl e
            | Inr s' \<Rightarrow>
                walk visit (if t_children (snd child) \<noteq> [] then (child, 0) # stack1 else stack1) s')
      else walk visit stack s)"
  by pat_completeness auto

termination
proof (relation "measure (\<lambda>(visit, stack, s). sum_list (map frame_weight stack))", goal_cases)
  case 1
  then show ?case by simp
next
  case (2 visit par child_index stack s x xa y)
  have w: "weight t = 2 + sum_list (map weight (t_children t))" for t
    by (cases t) simp
  from 2 show ?case
    by (auto simp: frame_weight_def w[of "t_children (snd par) ! child_index"]
          Cons_nth_drop_Suc[symmetric])
next
  case (3 visit par child_index stack s)
  then show ?case by (simp add: frame_weight_def)
qed

text \<open>
  The pairs (parent, child) in the order in which a pre-order traversal meets them, and
  the loop that runs an action over such a list; the stack loop is shown to be this.
\<close>

fun visits :: "path \<Rightarrow> mtree \<Rightarrow> (noderef \<times> noderef) list"
and visits_from :: "noderef \<Rightarrow> nat \<Rightarrow> mtree list \<Rightarrow> (noderef \<times> noderef) list"
where
  "visits p (MTree ty c l cs) = visits_from (p, MTree ty c l cs) 0 cs"
| "visits_from par j [] = []"
| "visits_from par j (c # cs) =
     (par, (fst par @ [j], c)) # visits (fst par @ [j]) c @ visits_from par (Suc j) cs"

fun run_visits :: "(noderef \<Rightarrow> noderef \<Rightarrow> 's \<Rightarrow> 'e + 's) \<Rightarrow> (noderef \<times> noderef) list \<Rightarrow> 's \<Rightarrow> 'e + 's" where
  "run_visits visit [] s = Inr s"
| "run_visits visit ((par, child) # xs) s =
     (case visit par child s of Inl e \<Rightarrow> Inl e | Inr s' \<Rightarrow> run_visits visit xs s')"

definition pending :: "noderef \<times> nat \<Rightarrow> (noderef \<times> noderef) list" where
  "pending f = visits_from (fst f) (snd f) (drop (snd f) (t_children (snd (fst f))))"

text \<open>\<open>_assign_node_ids\<close>.\<close>

definition visit_assign :: "noderef \<Rightarrow> noderef \<Rightarrow> nat \<times> idmap \<Rightarrow> unit + nat \<times> idmap" where
  "visit_assign par child s =
     (case s of (node_count, ids) \<Rightarrow>
        Inr (node_count + 1, ids(fst child \<mapsto> node_name node_count)))"

definition assign_node_ids :: "mtree \<Rightarrow> idmap \<Rightarrow> idmap" where
  "assign_node_ids root_node ids =
     (let ids = ids([] \<mapsto> ''node_0'')
      in snd (projr (walk visit_assign [(([], root_node), 0)] (1, ids))))"

text \<open>
  Pre-order of a tree, independently of the loop: a node, then the pre-orders of its
  children in their stored order. \<open>assign_all qs n\<close> gives the paths \<open>qs\<close> the ids
  \<open>node_n\<close>, \<open>node_(n+1)\<close>, ... in turn.
\<close>

fun preorder_paths :: "path \<Rightarrow> mtree \<Rightarrow> path list"
and preorder_paths_from :: "path \<Rightarrow> nat \<Rightarrow> mtree list \<Rightarrow> path list"
where
  "preorder_paths p (MTree ty c l cs) = p # preorder_paths_from p 0 cs"
| "preorder_paths_from p j [] = []"
| "preorder_paths_from p j (c # cs) = preorder_paths (p @ [j]) c @ preorder_paths_from p (Suc j) cs"

definition child_path :: "noderef \<times> noderef \<Rightarrow> path" where
  "child_path x = fst (snd x)"

fun assign_all :: "path list \<Rightarrow> nat \<Rightarrow> idmap \<Rightarrow> idmap" where
  "assign_all [] n ids = ids"
| "assign_all (q # qs) n ids = assign_all qs (Suc n) (ids(q \<mapsto> node_name n))"

text \<open>\<open>_generate_node_queries\<close>: the script text of the node statements.\<close>

definition escape_string :: "string \<Rightarrow> string" where
  "escape_string s = concat (map (\<lambda>c. if c = CHR 0x27 then [CHR 0x5C, CHR 0x27] else [c]) s)"

definition node_query :: "nat \<Rightarrow> mtree \<Rightarrow> string" where
  "node_query n child =
     ''CREATE (node_'' @ str_of_nat n @ '':Node {id: '' @ sq @ ''node_'' @ str_of_nat n @ sq
     @ '', type: '' @ sq @ t_type child @ sq
     @ '', content: '' @ sq @ escape_string (t_content child) @ sq
     @ (if t_level child > 0 then '', level: '' @ str_of_int (t_level child) else [])
     @ ''});''"

definition root_query :: string where
  "root_query = ''CREATE (node_0:Node {id: '' @ sq @ ''node_0'' @ sq @ '', type: '' @ sq @ ''root''
                @ sq @ '', content: '' @ sq @ sq @ ''});''"

definition visit_generate ::
  "noderef \<Rightarrow> noderef \<Rightarrow> nat \<times> idmap \<times> string list \<Rightarrow> unit + nat \<times> idmap \<times> string list" where
  "visit_generate par child s =
     (case s of (node_count, ids, queries) \<Rightarrow>
        Inr (node_count + 1, ids(fst child \<mapsto> node_name node_count),
             queries @ [node_query node_count (snd child)]))"

definition generate_node_queries :: "mtree \<Rightarrow> idmap \<Rightarrow> string list \<times> idmap" where
  "generate_node_queries root_node ids =
     (let ids = assign_node_ids root_node ids;
          queries = [root_query]
      in case projr (walk visit_generate [(([], root_node), 0)] (1, ids, queries)) of
           (node_count, ids, queries) \<Rightarrow> (queries, ids))"

text \<open>\<open>_create_nodes\<close>: the live path.\<close>

definition create_params :: "string \<Rightarrow> mtree \<Rightarrow> params" where
  "create_params i child =
     [(''id'', StrV i), (''type'', StrV (t_type child)), (''content'', StrV (t_content child)),
      (''level'', IntV (t_level child))]"

definition visit_create ::
  "Neo4jGraph \<Rightarrow> noderef \<Rightarrow> noderef \<Rightarrow> nat \<times> idmap \<times> world
     \<Rightarrow> (py_error \<times> world) + nat \<times> idmap \<times> world" where
  "visit_create g par child s =
     (case s of (node_count, ids, w) \<Rightarrow>
        (let ids = ids(fst child \<mapsto> node_name node_count)
         in case execute_query g q_create_node (create_params (node_name node_count) (snd child)) w of
              (Inl e, w') \<Rightarrow> Inl (e, w')
            | (Inr rows, w') \<Rightarrow> Inr (node_count + 1, ids, w')))"

definition create_nodes :: "Neo4jGraph \<Rightarrow> mtree \<Rightarrow> idmap \<Rightarrow> world \<Rightarrow> idmap result" where
  "create_nodes g root_node ids w =
     (let ids = ids([] \<mapsto> ''node_0'')
      in case execute_query g q_create_root
                [(''id'', StrV ''node_0''), (''type'', StrV (t_type root_node)),
                 (''content'', StrV (t_content root_node))] w of
           (Inl e, w') \<Rightarrow> (Inl e, w')
         | (Inr rows, w') \<Rightarrow>
             (case walk (visit_create g) [(([], root_node), 0)] (1, ids, w') of
                Inl (e, w'') \<Rightarrow> (Inl e, w'')
              | Inr (node_count, ids, w'') \<Rightarrow> (Inr ids, w'')))"

text \<open>Example trees.\<close>

definition tree2 :: mtree where
  "tree2 = MTree ''root'' [] 0
     [MTree ''heading'' ''Header 1'' 1
        [MTree ''paragraph'' ''Paragraph 1'' 0 [], MTree ''heading'' ''Header 2'' 2 []],
      MTree ''heading'' ''Header 3'' 1 []]"

definition tree_par :: mtree where
  "tree_par = MTree ''root'' [] 0 [MTree ''paragraph'' ''P'' 0 []]"

section \<open>Writing a graph, and the commands (neo4j_graph.py, markdown_parser.py, cli.py)\<close>

text \<open>
  \<open>_create_relationships\<close> and \<open>Neo4jGraph.create_graph\<close>. A node whose \<open>id\<close> was never
  assigned has \<open>id = None\<close>, which is sent as null.
\<close>

definition idval :: "string option \<Rightarrow> pvalue" where
  "idval i = (case i of None \<Rightarrow> NullV | Some s \<Rightarrow> StrV s)"

definition visit_relationship ::
  "Neo4jGraph \<Rightarrow> idmap \<Rightarrow> noderef \<Rightarrow> noderef \<Rightarrow> world \<Rightarrow> (py_error \<times> world) + world" where
  "visit_relationship g ids par child w =
     (case execute_query g q_create_rel
             [(''parent_id'', idval (ids (fst par))), (''child_id'', idval (ids (fst child)))] w of
        (Inl e, w') \<Rightarrow> Inl (e, w')
      | (Inr rows, w') \<Rightarrow> Inr w')"

definition create_relationships :: "Neo4jGraph \<Rightarrow> mtree \<Rightarrow> idmap \<Rightarrow> world \<Rightarrow> unit result" where
  "create_relationships g root_node ids w =
     (case walk (visit_relationship g ids) [(([], root_node), 0)] w of
        Inl (e, w') \<Rightarrow> (Inl e, w')
      | Inr w' \<Rightarrow> (Inr (), w'))"

definition create_graph :: "Neo4jGraph \<Rightarrow> mtree \<Rightarrow> idmap \<Rightarrow> world \<Rightarrow> idmap result" where
  "create_graph g root_node ids w =
     (let w = log_line ''INFO'' ''Creating graph from markdown AST'' w in
      case execute_query g q_clear [] w of
        (Inl e, w) \<Rightarrow> (Inl e, w)
      | (Inr rows, w) \<Rightarrow>
          (case create_nodes g root_node ids w of
             (Inl e, w) \<Rightarrow> (Inl e, w)
           | (Inr ids, w) \<Rightarrow>
               (case create_relationships g root_node ids w of
                  (Inl e, w) \<Rightarrow> (Inl e, w)
                | (Inr u, w) \<Rightarrow> (Inr ids, log_line ''INFO'' ''Graph creation completed'' w))))"

text \<open>
  \<open>connect\<close> and \<open>disconnect\<close>. Whether the driver constructor raises is given from
  outside (\<open>driver_raises\<close>). The text of an exception, \<open>str(e)\<close>, is the library's; the
  model writes the name of the exception in its place.
\<close>

definition describe :: "py_error \<Rightarrow> string" where
  "describe e = (case e of ValueError \<Rightarrow> ''ValueError'' | IndexError \<Rightarrow> ''IndexError''
     | AttributeError \<Rightarrow> ''AttributeError'' | DriverError \<Rightarrow> ''DriverError''
     | ServiceUnavailable \<Rightarrow> ''ServiceUnavailable'' | ClientError \<Rightarrow> ''ClientError''
     | RecursionError \<Rightarrow> ''RecursionError'' | FileNotFoundError \<Rightarrow> ''FileNotFoundError'')"

definition connect :: "bool \<Rightarrow> Neo4jGraph \<Rightarrow> world \<Rightarrow> Neo4jGraph result" where
  "connect driver_raises g w =
     (if driver_raises then
        (Inl DriverError, log_line ''ERROR'' (''Failed to connect to Neo4j: '' @ describe DriverError) w)
      else (Inr (g\<lparr>driver := Some (Driver False)\<rparr>),
            log_line ''INFO'' (''Connected to Neo4j at '' @ uri g) w))"

definition disconnect :: "Neo4jGraph \<Rightarrow> world \<Rightarrow> Neo4jGraph \<times> world" where
  "disconnect g w =
     (case driver g of
        None \<Rightarrow> (g, w)
      | Some d \<Rightarrow> (g\<lparr>driver := Some (Driver True)\<rparr>, log_line ''INFO'' ''Disconnected from Neo4j'' w))"

text \<open>
  \<open>MarkdownParser\<close>. The Markdown engine is not part of the repository. The parser object
  creates one engine (\<open>self.md\<close>) and uses it for every parse, so the engine is a parameter
  with a state of its own: \<open>engine m text\<close> is the element tree that the engine in state
  \<open>m\<close> builds for \<open>text\<close>, and the state it is left in. The parser never resets the engine.
  What the parser object gets from this program is the registry entry of its tree
  processor: \<open>register\<close> replaces an entry of the same name. \<open>parse\<close> creates a fresh
  processor, registers it, lets the engine run it on the element tree, and returns the
  processor (whose node 0 is the root of the tree).
\<close>

record 'm MarkdownParser =
  md :: 'm
  treeprocessors :: "(string \<times> MarkdownTreeProcessor) list"

definition register :: "'a \<Rightarrow> string \<Rightarrow> (string \<times> 'a) list \<Rightarrow> (string \<times> 'a) list" where
  "register item name reg = filter (\<lambda>e. fst e \<noteq> name) reg @ [(name, item)]"

definition new_parser :: "'m \<Rightarrow> 'm MarkdownParser" where
  \<comment> \<open>\<open>MarkdownParser.__init__\<close>, given the state of a newly created engine\<close>
  "new_parser m = \<lparr>md = m, treeprocessors = []\<rparr>"

definition parse ::
  "('m \<Rightarrow> string \<Rightarrow> Element \<times> 'm) \<Rightarrow> 'm MarkdownParser \<Rightarrow> string
     \<Rightarrow> (py_error + MarkdownTreeProcessor) \<times> 'm MarkdownParser" where
  "parse engine parser text =
     (let processor = init_processor;
          reg = register processor ''ast_extractor'' (treeprocessors parser)
      in case engine (md parser) text of
           (root, m) \<Rightarrow>
             (case process_element root processor of
                Inl e \<Rightarrow> (Inl e, parser\<lparr>md := m, treeprocessors := reg\<rparr>)
              | Inr processor' \<Rightarrow>
                  (Inr processor',
                   parser\<lparr>md := m, treeprocessors := register processor' ''ast_extractor'' reg\<rparr>)))"

text \<open>
  Two engines. The first has no state that matters; it answers every text with the
  element tree of the first scenario. The second numbers the placeholder that stands for
  a block of raw HTML with a counter that lives in the engine, as the library's HTML stash
  does, and answers with the one paragraph that holds the placeholder.
\<close>

definition plain_engine :: "nat \<Rightarrow> string \<Rightarrow> Element \<times> nat" where
  "plain_engine m text = (doc1, m)"

definition stash_engine :: "nat \<Rightarrow> string \<Rightarrow> Element \<times> nat" where
  "stash_engine m text =
     (Element ''div'' []
        [Element ''p'' ([CHR 0x02] @ ''wzxhzdk:'' @ str_of_nat m @ [CHR 0x03]) [] [CHR 0x0A]] [],
      Suc m)"

text \<open>
  The tree that the writer reads off the builder's store, from the root down. Every child
  is created after its parent, so a path of the tree has fewer nodes than the store, and
  \<open>length (nodes processor)\<close> levels reach every node.
\<close>

fun tree_of :: "nat \<Rightarrow> MarkdownNode list \<Rightarrow> nat \<Rightarrow> mtree" where
  "tree_of 0 ns a = MTree (node_type (ns ! a)) (content (ns ! a)) (level (ns ! a)) []"
| "tree_of (Suc fuel) ns a =
     MTree (node_type (ns ! a)) (content (ns ! a)) (level (ns ! a))
           (map (tree_of fuel ns) (children (ns ! a)))"

definition root_tree :: "MarkdownTreeProcessor \<Rightarrow> mtree" where
  "root_tree processor = tree_of (length (nodes processor)) (nodes processor) 0"

text \<open>
  The two commands. What they read from outside is \<open>cli_env\<close>: the environment variables,
  the files, the Markdown engine (a new engine starts in state 0), whether the driver
  constructor raises, and the interpreter's recursion limit. A command ends with an exit code (1 after
  \<open>sys.exit(1)\<close>), the graph object it created, if any, and the world it leaves.
\<close>

record cli_env =
  env_vars :: environ
  files :: "string \<rightharpoonup> string"
  markdown_engine :: "nat \<Rightarrow> string \<Rightarrow> Element \<times> nat"
  driver_raises :: bool
  recursion_limit :: nat

record cli_outcome =
  exit_code :: nat
  graph :: "Neo4jGraph option"
  after :: world

definition cli_create_graph ::
  "cli_env \<Rightarrow> string \<Rightarrow> string option \<Rightarrow> string option \<Rightarrow> string option \<Rightarrow> world \<Rightarrow> cli_outcome" where
  "cli_create_graph env file u n p w =
     (let failed = (\<lambda>e g w. \<lparr>exit_code = 1, graph = g,
                              after = log_line ''ERROR'' (''Error creating graph: '' @ describe e) w\<rparr>)
      in case get_neo4j_credentials (env_vars env) u n p of (u, n, p) \<Rightarrow>
         (case files env file of
            None \<Rightarrow> failed FileNotFoundError None w
          | Some text \<Rightarrow>
              (case fst (parse (markdown_engine env) (new_parser 0) text) of
                 Inl e \<Rightarrow> failed e None w
               | Inr ast \<Rightarrow>
                   (let g = \<lparr>uri = u, username = n, password = p, driver = None\<rparr> in
                    case connect (driver_raises env) g w of
                      (Inl e, w) \<Rightarrow> failed e (Some g) w
                    | (Inr g, w) \<Rightarrow>
                        (case create_graph g (root_tree ast) Map.empty w of
                           (Inl e, w) \<Rightarrow> failed e (Some g) w
                         | (Inr ids, w) \<Rightarrow>
                             (case disconnect g w of
                                (g, w) \<Rightarrow> \<lparr>exit_code = 0, graph = Some g, after = w\<rparr>))))))"

definition cli_traverse_graph ::
  "cli_env \<Rightarrow> string option \<Rightarrow> string option \<Rightarrow> string option \<Rightarrow> world \<Rightarrow> cli_outcome" where
  "cli_traverse_graph env u n p w =
     (let failed = (\<lambda>e g w. \<lparr>exit_code = 1, graph = g,
                              after = log_line ''ERROR'' (''Error traversing graph: '' @ describe e) w\<rparr>)
      in case get_neo4j_credentials (env_vars env) u n p of (u, n, p) \<Rightarrow>
         (let g = \<lparr>uri = u, username = n, password = p, driver = None\<rparr> in
          case connect (driver_raises env) g w of
            (Inl e, w) \<Rightarrow> failed e (Some g) w
          | (Inr g, w) \<Rightarrow>
              (case traverse_and_print (recursion_limit env) g w of
                 (Inl e, w) \<Rightarrow> failed e (Some g) w
               | (Inr markdown, w) \<Rightarrow>
                   (case disconnect g (w\<lparr>stdout := stdout w @ [markdown]\<rparr>) of
                      (g, w) \<Rightarrow> \<lparr>exit_code = 0, graph = Some g, after = w\<rparr>))))"

text \<open>An example environment: one readable file, an engine answering with the first
  scenario's element tree, a driver that can be created.\<close>

definition env1 :: cli_env where
  "env1 = \<lparr>env_vars = Map.empty, files = [''doc.md'' \<mapsto> ''# Header 1''],
           markdown_engine = plain_engine, driver_raises = False, recursion_limit = 1000\<rparr>"

section \<open>Properties of the Tree Builder\<close>






lemma add_child_length [simp]: "length (add_child p c ns) = length ns"
  by (simp add: add_child_def Let_def)

























lemma map_update_same:
  assumes "f v = f (xs ! i)"
  shows "map f (xs[i := v]) = map f xs"
proof (cases "i < length xs")
  case True
  then show ?thesis using assms by (simp add: map_update list_update_same_conv)
next
  case False
  then show ?thesis by (simp add: list_update_beyond)
qed

lemma shape_add_child [simp]: "shape (add_child p c ns) = shape ns"
  unfolding shape_def add_child_def Let_def
  by (simp add: map_update_same)

lemma shape_append [simp]: "shape (ns @ ms) = shape ns @ shape ms"
  by (simp add: shape_def)








text \<open>
  C4. An element whose concatenated inner text is empty after trimming creates no tree
  node. This holds for paragraphs only: the heading branch has no test of the content.
  In the document below the \<open>h1\<close> element has empty text and the \<open>p\<close> element has blank
  text; the builder creates a heading node with empty content for the first and nothing
  for the second.
\<close>

theorem empty_heading_creates_node:
  "strip (concat (itertext (Element ''h1'' [] [] [CHR 0x0A]))) = []
   \<and> strip (concat (itertext (Element ''p'' '' '' [] []))) = []
   \<and> run doc_empty_heading = Inr \<lparr>nodes =
        [\<lparr>node_type = ''root'', content = [], level = 0, parent = None,
            children = [1], node_id = None\<rparr>,
         \<lparr>node_type = ''heading'', content = [], level = 1,
            parent = Some 0, children = [], node_id = None\<rparr>],
        current_node = 1, heading_stack = [1, 0]\<rparr>"
  by code_simp

section \<open>Properties of the Graph Reader\<close>

lemma should_log_ERROR [simp]: "should_log w ''ERROR''"
  by (simp add: should_log_def LEVELS_def)

lemma q_root_neq: "q_root \<noteq> q_clear" "q_root \<noteq> q_create_root" "q_root \<noteq> q_create_node"
  "q_root \<noteq> q_create_rel"
  by (simp_all add: q_root_def q_clear_def q_create_root_def q_create_node_def q_create_rel_def
        nl_def sq_def)

lemma db_run_q_root:
  "db_run q_root ps w = Inr (filter (\<lambda>n. p_type n = ''root'') (db_nodes w), w)"
  by (simp add: db_run_def q_root_neq)

lemma log_line_fields [simp]:
  "db_nodes (log_line lv m w) = db_nodes w" "db_edges (log_line lv m w) = db_edges w"
  "budget (log_line lv m w) = budget w" "stdout (log_line lv m w) = stdout w"
  "sent (log_line lv m w) = sent w" "log_level (log_line lv m w) = log_level w"
  by (simp_all add: log_line_def)

lemma should_log_log_line [simp]: "should_log (log_line lv m w) lv' = should_log w lv'"
  by (simp add: should_log_def)

lemma stderr_log_line:
  "stderr (log_line lv m w) = stderr w @ (if should_log w lv then [lv @ '': '' @ m] else [])"
  by (simp add: log_line_def)

text \<open>
  C6. For every store state in which no node of type \<open>root\<close> exists, read with a connected
  graph object whose connection carries the first statement, the traversal returns the
  empty string without raising and logs the error that the root node was not found: the
  line is the last one written to standard error, after the INFO and DEBUG lines that the
  logger's level lets through; standard output and the store are unchanged.
\<close>

theorem missing_root:
  assumes "driver g = Some d" and "\<not> closed d" and "budget w \<noteq> Some 0"
    and "\<forall>n\<in>set (db_nodes w). p_type n \<noteq> ''root''"
  shows "fst (traverse_and_print depth g w) = Inr []
    \<and> stderr (snd (traverse_and_print depth g w)) =
        stderr w
        @ (if should_log w ''INFO'' then [''INFO: Traversing graph''] else [])
        @ (if should_log w ''DEBUG'' then [''DEBUG: Executing query: '' @ q_root] else [])
        @ [''ERROR: Root node not found in graph'']
    \<and> stdout (snd (traverse_and_print depth g w)) = stdout w
    \<and> db_nodes (snd (traverse_and_print depth g w)) = db_nodes w
    \<and> db_edges (snd (traverse_and_print depth g w)) = db_edges w"
proof -
  have f: "filter (\<lambda>n. p_type n = ''root'') (db_nodes w) = []"
    using assms(4) by (simp add: filter_empty_conv)
  define w1 where "w1 = log_line ''INFO'' ''Traversing graph'' w"
  define w2 where "w2 = log_line ''DEBUG'' (''Executing query: '' @ q_root) w1"
  define w3 where "w3 = w2\<lparr>budget := map_option (\<lambda>n. n - 1) (budget w2),
                          sent := sent w2 @ [(q_root, [])]\<rparr>"
  have b: "budget w2 \<noteq> Some 0" using assms(3) by (simp add: w2_def w1_def)
  have e: "execute_query g q_root [] w1 = (Inr [], w3)"
    using assms(1,2) b f
    by (simp add: execute_query_def Let_def w2_def[symmetric] w3_def[symmetric] db_run_q_root)
       (simp add: w3_def w2_def w1_def)
  have t: "traverse_and_print depth g w = (Inr [], log_line ''ERROR'' ''Root node not found in graph'' w3)"
    by (simp add: traverse_and_print_def Let_def w1_def[symmetric] get_root_node_def e)
  show ?thesis
    unfolding t
    by (simp add: stderr_log_line w3_def w2_def w1_def)
qed

theorem missing_root_witness:
  "driver graph0 = Some (Driver False) \<and> \<not> closed (Driver False)
   \<and> budget stored_no_root \<noteq> Some 0
   \<and> map p_type (db_nodes stored_no_root) = [''heading'', ''paragraph'']
   \<and> fst (traverse_and_print 1000 graph0 stored_no_root) = Inr []
   \<and> stderr (snd (traverse_and_print 1000 graph0 stored_no_root))
       = [''ERROR: Root node not found in graph'']
   \<and> db_nodes (snd (traverse_and_print 1000 graph0 stored_no_root)) = db_nodes stored_no_root"
proof -
  have h: "driver graph0 = Some (Driver False)" "\<not> closed (Driver False)"
    "budget stored_no_root \<noteq> Some 0"
    "\<forall>n\<in>set (db_nodes stored_no_root). p_type n \<noteq> ''root''"
    by (simp_all add: graph0_def world0_def stored_no_root_def)
  have l: "\<not> should_log stored_no_root ''INFO''" "\<not> should_log stored_no_root ''DEBUG''"
    "stderr stored_no_root = []"
    "map p_type (db_nodes stored_no_root) = [''heading'', ''paragraph'']"
    by (simp_all add: should_log_def LEVELS_def world0_def stored_no_root_def)
  from missing_root[OF h, of 1000] l h(1,2,3) show ?thesis by simp
qed

lemma traverse_extends:
  "traverse_node depth g i lines w = (Inr out, w') \<Longrightarrow> \<exists>ys. out = lines @ ys"
  "traverse_children depth g cs lines w = (Inr out, w') \<Longrightarrow> \<exists>ys. out = lines @ ys"
proof (induction depth g i lines w and depth g cs lines w arbitrary: out w' and out w'
       rule: traverse_node_traverse_children.induct)
  case (1 g nid lines w)
  then show ?case by simp
next
  case (2 depth g nid lines w)
  from "2.prems" obtain kids w1 where c: "get_children g nid w = (Inr kids, w1)"
    and r: "traverse_children depth g kids lines w1 = (Inr out, w')"
    by (auto split: prod.splits sum.splits)
  show ?case using "2.IH"[OF c[symmetric] refl r] .
next
  case (3 depth g lines w)
  then show ?case by simp
next
  case (4 depth g child rest lines w)
  from "4.prems" obtain lines1 w1 where
    c: "traverse_node depth g (p_id child) (render_child child lines) w = (Inr lines1, w1)"
    and r: "traverse_children depth g rest lines1 w1 = (Inr out, w')"
    by (auto split: prod.splits sum.splits)
  from "4.IH"(1)[OF c] obtain ys where ys: "lines1 = render_child child lines @ ys" by blast
  from "4.IH"(2)[OF c[symmetric] refl r] obtain zs where zs: "out = lines1 @ zs" by blast
  have "\<exists>xs. render_child child lines = lines @ xs"
    by (simp add: render_child_def Let_def)
  then show ?case using ys zs by auto
qed

text \<open>
  C9. A child record of type \<open>heading\<close> that has no level attribute is rendered with exactly
  one \<open>#\<close>, a space and its content, followed by an empty line: these are the two lines that
  the loop appends for it before it descends into the child, and they stand at that
  position in the output of every traversal that returns.
\<close>

theorem heading_default_level:
  assumes "p_type child = ''heading''" and "p_level child = None"
  shows "render_child child lines = lines @ [''# '' @ p_content child, []]
    \<and> traverse_children depth g (child # rest) lines w =
        (case traverse_node depth g (p_id child) (lines @ [''# '' @ p_content child, []]) w of
           (Inl e, w') \<Rightarrow> (Inl e, w')
         | (Inr lines', w') \<Rightarrow> traverse_children depth g rest lines' w')
    \<and> (\<forall>out w'. traverse_children depth g (child # rest) lines w = (Inr out, w') \<longrightarrow>
          take (length lines + 2) out = lines @ [''# '' @ p_content child, []])"
proof -
  have r: "render_child child lines = lines @ [''# '' @ p_content child, []]"
    using assms by (simp add: render_child_def)
  have "take (length lines + 2) out = lines @ [''# '' @ p_content child, []]"
    if "traverse_children depth g (child # rest) lines w = (Inr out, w')" for out w'
  proof -
    from that obtain lines1 w1 where
      c: "traverse_node depth g (p_id child) (render_child child lines) w = (Inr lines1, w1)"
      and t: "traverse_children depth g rest lines1 w1 = (Inr out, w')"
      by (auto split: prod.splits sum.splits)
    from traverse_extends(1)[OF c] obtain ys where "lines1 = render_child child lines @ ys"
      by blast
    moreover from traverse_extends(2)[OF t] obtain zs where "out = lines1 @ zs" by blast
    ultimately show ?thesis by (simp add: r)
  qed
  then show ?thesis using r by simp
qed

theorem heading_default_level_witness:
  "p_type (db_nodes stored_nolevel_heading ! 1) = ''heading''
   \<and> p_level (db_nodes stored_nolevel_heading ! 1) = None
   \<and> render_child (db_nodes stored_nolevel_heading ! 1) [] = [''# Title'', []]
   \<and> fst (traverse_and_print 1000 graph0 stored_nolevel_heading) = Inr (''# Title'' @ nl)"
proof -
  have h: "p_type (db_nodes stored_nolevel_heading ! 1) = ''heading''"
    "p_level (db_nodes stored_nolevel_heading ! 1) = None"
    by (simp_all add: stored_nolevel_heading_def world0_def)
  have c: "p_content (db_nodes stored_nolevel_heading ! 1) = ''Title''"
    by (simp add: stored_nolevel_heading_def world0_def)
  have t: "fst (traverse_and_print 1000 graph0 stored_nolevel_heading) = Inr (''# Title'' @ nl)"
    by code_simp
  from heading_default_level[OF h, of "[]"] c t h show ?thesis by simp
qed

text \<open>
  C5. Reading the stored graph root \<open>\<rightarrow>\<close> heading("Header 1", 1) \<open>\<rightarrow>\<close> [paragraph("Paragraph 1"),
  heading("Header 2", 2)] returns the text of the second scenario with two newlines at
  the end. The traversal returns it with one: the lines are joined with newlines between
  them, so the final empty line contributes a single newline. The children of the first
  heading come back in (level, id) order, the paragraph (level 0) before the heading; with
  no level stored on the paragraph it comes after the heading.
\<close>

theorem scenario2_single_trailing_newline:
  "fst (traverse_and_print 1000 graph0 stored2)
     = Inr (''# Header 1'' @ nl @ nl @ ''Paragraph 1'' @ nl @ nl @ ''## Header 2'' @ nl)
   \<and> fst (traverse_and_print 1000 graph0 stored2)
     \<noteq> Inr (''# Header 1'' @ nl @ nl @ ''Paragraph 1'' @ nl @ nl @ ''## Header 2'' @ nl @ nl)
   \<and> fst (get_children graph0 ''node_1'' stored2) = Inr [db_nodes stored2 ! 2, db_nodes stored2 ! 3]
   \<and> fst (traverse_and_print 1000 graph0 stored2_nolevel)
     = Inr (''# Header 1'' @ nl @ nl @ ''## Header 2'' @ nl @ nl @ ''Paragraph 1'' @ nl)"
  by code_simp

section \<open>Properties of the Graph Writer\<close>

lemma run_visits_append:
  "run_visits visit (xs @ ys) s =
     (case run_visits visit xs s of Inl e \<Rightarrow> Inl e | Inr s' \<Rightarrow> run_visits visit ys s')"
  by (induction xs arbitrary: s) (auto split: sum.splits)

lemma visits_children: "visits p t = visits_from (p, t) 0 (t_children t)"
  by (cases t) simp

lemma visits_leaf: "t_children t = [] \<Longrightarrow> visits p t = []"
  by (simp add: visits_children)

lemma walk_visits:
  "walk visit stack s = run_visits visit (concat (map pending stack)) s"
proof (induction visit stack s rule: walk.induct)
  case (1 visit s)
  then show ?case by simp
next
  case (2 visit par child_index stack s)
  let ?cs = "t_children (snd par)"
  show ?case
  proof (cases "child_index < length ?cs")
    case False
    then have "pending (par, child_index) = []" by (simp add: pending_def)
    then show ?thesis using False "2.IH"(2) by simp
  next
    case True
    let ?child = "(fst par @ [child_index], ?cs ! child_index)"
    have d: "drop child_index ?cs = ?cs ! child_index # drop (Suc child_index) ?cs"
      using True by (simp add: Cons_nth_drop_Suc)
    have p: "pending (par, child_index) =
               (par, ?child) # visits (fst ?child) (snd ?child) @ pending (par, Suc child_index)"
      by (simp add: pending_def d)
    have c: "concat (map pending (if t_children (snd ?child) \<noteq> [] then [(?child, 0)] else []))
               = visits (fst ?child) (snd ?child)"
      by (simp add: pending_def visits_children visits_leaf)
    show ?thesis
    proof (cases "visit par ?child s")
      case (Inl e)
      then show ?thesis using True p by (simp add: Let_def)
    next
      case (Inr s')
      have "walk visit ((par, child_index) # stack) s =
              walk visit (if t_children (snd ?child) \<noteq> [] then (?child, 0) # (par, child_index + 1) # stack
                          else (par, child_index + 1) # stack) s'"
        using True Inr by (simp add: Let_def)
      also have "\<dots> = run_visits visit
           (concat (map pending (if t_children (snd ?child) \<noteq> [] then (?child, 0) # (par, child_index + 1) # stack
                          else (par, child_index + 1) # stack))) s'"
        using "2.IH"(1)[OF True refl refl Inr] by simp
      also have "\<dots> = run_visits visit (visits (fst ?child) (snd ?child) @ pending (par, Suc child_index)
                         @ concat (map pending stack)) s'"
        using c by (simp split: if_splits)
      finally show ?thesis using Inr p by simp
    qed
  qed
qed

lemma child_path_pair [simp]: "child_path (par, child) = fst child"
  by (simp add: child_path_def)

lemma visits_paths:
  "map child_path (visits p t) = tl (preorder_paths p t)"
  "map child_path (visits_from par j cs) = preorder_paths_from (fst par) j cs"
proof (induction p t and par j cs rule: visits_visits_from.induct)
  case (1 p ty c l cs)
  then show ?case by simp
next
  case (2 par j)
  then show ?case by simp
next
  case (3 par j c cs)
  have "preorder_paths (fst par @ [j]) c = (fst par @ [j]) # tl (preorder_paths (fst par @ [j]) c)"
    by (cases c) simp
  then show ?case using 3 by simp
qed

lemma paths_prefix:
  "q \<in> set (preorder_paths p t) \<Longrightarrow> \<exists>r. q = p @ r"
  "q \<in> set (preorder_paths_from p j cs) \<Longrightarrow> \<exists>i r. q = p @ i # r \<and> j \<le> i"
proof (induction p t and p j cs arbitrary: q and q rule: preorder_paths_preorder_paths_from.induct)
  case (1 p ty c l cs)
  then show ?case by fastforce
next
  case (2 p j)
  then show ?case by simp
next
  case (3 p j c cs)
  from "3.prems" consider "q \<in> set (preorder_paths (p @ [j]) c)"
    | "q \<in> set (preorder_paths_from p (Suc j) cs)" by auto
  then show ?case
  proof cases
    case 1
    from "3.IH"(1)[OF 1] obtain r where "q = (p @ [j]) @ r" by blast
    then show ?thesis by auto
  next
    case 2
    from "3.IH"(2)[OF 2] obtain i r where "q = p @ i # r" "Suc j \<le> i" by blast
    then show ?thesis by auto
  qed
qed

lemma paths_distinct:
  "distinct (preorder_paths p t)"
  "distinct (preorder_paths_from p j cs)"
proof (induction p t and p j cs rule: preorder_paths_preorder_paths_from.induct)
  case (1 p ty c l cs)
  have "p \<notin> set (preorder_paths_from p 0 cs)"
    using paths_prefix(2)[of p p 0 cs] by auto
  then show ?case using 1 by simp
next
  case (2 p j)
  then show ?case by simp
next
  case (3 p j c cs)
  have "set (preorder_paths (p @ [j]) c) \<inter> set (preorder_paths_from p (Suc j) cs) = {}"
  proof (rule ccontr)
    assume "\<not> ?thesis"
    then obtain q where a: "q \<in> set (preorder_paths (p @ [j]) c)"
      and b: "q \<in> set (preorder_paths_from p (Suc j) cs)" by blast
    from paths_prefix(1)[OF a] obtain r where r: "q = (p @ [j]) @ r" by blast
    from paths_prefix(2)[OF b] obtain i r' where i: "q = p @ i # r'" "Suc j \<le> i" by blast
    from r i show False by simp
  qed
  then show ?case using 3 by simp
qed

lemma assign_all_other: "q \<notin> set qs \<Longrightarrow> assign_all qs n ids q = ids q"
  by (induction qs arbitrary: n ids) auto

lemma assign_all_nth:
  "distinct qs \<Longrightarrow> k < length qs \<Longrightarrow> assign_all qs n ids (qs ! k) = Some (node_name (n + k))"
proof (induction qs arbitrary: n ids k)
  case Nil
  then show ?case by simp
next
  case (Cons q qs)
  show ?case
  proof (cases k)
    case 0
    then show ?thesis using Cons.prems by (simp add: assign_all_other)
  next
    case (Suc k')
    then show ?thesis using Cons.prems Cons.IH[of k' "Suc n"] by simp
  qed
qed

lemma assign_all_idem:
  assumes "distinct qs"
  shows "assign_all qs n (assign_all qs n ids) = assign_all qs n ids"
proof
  fix q
  show "assign_all qs n (assign_all qs n ids) q = assign_all qs n ids q"
  proof (cases "q \<in> set qs")
    case True
    then obtain k where "k < length qs" "qs ! k = q" by (auto simp: in_set_conv_nth)
    then show ?thesis using assign_all_nth[OF assms, of k] by metis
  next
    case False
    then show ?thesis by (simp add: assign_all_other)
  qed
qed

lemma run_visits_assign:
  "run_visits visit_assign xs (n, ids) = Inr (n + length xs, assign_all (map child_path xs) n ids)"
  by (induction xs arbitrary: n ids) (auto simp: visit_assign_def)

lemma node_name_0: "node_name 0 = ''node_0''"
  by (simp add: node_name_def digit_char_def)

lemma preorder_paths_children:
  "preorder_paths p t = p # preorder_paths_from p 0 (t_children t)"
  by (cases t) simp

lemma pending_root: "concat (map pending [((p, t), 0)]) = visits p t"
  by (simp add: pending_def visits_children)

lemma assign_node_ids_eq:
  "assign_node_ids root_node ids = assign_all (preorder_paths [] root_node) 0 ids"
  unfolding assign_node_ids_def Let_def walk_visits pending_root run_visits_assign
  by (simp add: visits_paths preorder_paths_children[of "[]" root_node] node_name_0)

lemma visit_generate_step:
  "visit_generate par child (n, ids, qs)
     = Inr (Suc n, ids(fst child \<mapsto> node_name n), qs @ [node_query n (snd child)])"
  by (simp add: visit_generate_def)

lemma visit_create_step:
  "execute_query g q_create_node (create_params (node_name n) (snd child)) w = (Inr rows, w')
   \<Longrightarrow> visit_create g par child (n, ids, w) = Inr (Suc n, ids(fst child \<mapsto> node_name n), w')"
  by (simp add: visit_create_def)

lemma run_visits_generate:
  "\<exists>qs'. run_visits visit_generate xs (n, ids, qs)
          = Inr (n + length xs, assign_all (map child_path xs) n ids, qs')"
proof (induction xs arbitrary: n ids qs)
  case Nil
  then show ?case by simp
next
  case (Cons x xs)
  obtain par child where x: "x = (par, child)" by (cases x)
  obtain qs' where "run_visits visit_generate xs
        (Suc n, ids(fst child \<mapsto> node_name n), qs @ [node_query n (snd child)])
      = Inr (Suc n + length xs,
             assign_all (map child_path xs) (Suc n) (ids(fst child \<mapsto> node_name n)), qs')"
    using Cons.IH by blast
  then show ?case by (simp add: x visit_generate_step)
qed

lemma q_create_node_neq: "q_create_node \<noteq> q_clear" "q_create_node \<noteq> q_create_root"
  by (simp_all add: q_clear_def q_create_root_def q_create_node_def nl_def)

lemma q_create_root_neq: "q_create_root \<noteq> q_clear"
  by (simp add: q_clear_def q_create_root_def nl_def)

lemma execute_create_node:
  assumes "driver g = Some d" "\<not> closed d" "budget w = None"
  shows "\<exists>rows w'. execute_query g q_create_node (create_params i child) w = (Inr rows, w')
                    \<and> budget w' = None"
  using assms
  by (simp add: execute_query_def Let_def db_run_def q_create_node_neq create_params_def
        param_str_def param_int_def)

lemma execute_create_root:
  assumes "driver g = Some d" "\<not> closed d" "budget w = None"
  shows "\<exists>rows w'. execute_query g q_create_root
                      [(''id'', StrV i), (''type'', StrV t), (''content'', StrV c)] w = (Inr rows, w')
                    \<and> budget w' = None"
  using assms
  by (simp add: execute_query_def Let_def db_run_def q_create_root_neq param_str_def)

lemma run_visits_create:
  assumes "driver g = Some d" "\<not> closed d" "budget w = None"
  shows "\<exists>w'. run_visits (visit_create g) xs (n, ids, w)
          = Inr (n + length xs, assign_all (map child_path xs) n ids, w') \<and> budget w' = None"
  using assms(3)
proof (induction xs arbitrary: n ids w)
  case Nil
  then show ?case by simp
next
  case (Cons x xs)
  obtain par child where x: "x = (par, child)" by (cases x)
  from execute_create_node[OF assms(1,2) Cons.prems, of "node_name n" "snd child"]
  obtain rows w1 where e: "execute_query g q_create_node (create_params (node_name n) (snd child)) w
                            = (Inr rows, w1)" and b: "budget w1 = None" by blast
  obtain w2 where "run_visits (visit_create g) xs (Suc n, ids(fst child \<mapsto> node_name n), w1)
      = Inr (Suc n + length xs,
             assign_all (map child_path xs) (Suc n) (ids(fst child \<mapsto> node_name n)), w2)"
    and "budget w2 = None"
    using Cons.IH[OF b] by blast
  then show ?case by (simp add: x visit_create_step[OF e])
qed

lemma generate_node_queries_ids:
  "snd (generate_node_queries root_node ids) = assign_node_ids root_node ids"
proof -
  let ?qs = "preorder_paths_from [] 0 (t_children root_node)"
  have d: "distinct ?qs" by (rule paths_distinct)
  have a: "assign_node_ids root_node ids = assign_all ?qs 1 (ids([] \<mapsto> ''node_0''))"
    by (simp add: assign_node_ids_eq preorder_paths_children[of "[]" root_node] node_name_0)
  obtain qs' where
    r: "run_visits visit_generate (visits [] root_node) (1, assign_node_ids root_node ids, [root_query])
        = Inr (1 + length (visits [] root_node),
               assign_all (map child_path (visits [] root_node)) 1 (assign_node_ids root_node ids), qs')"
    using run_visits_generate by blast
  have "snd (generate_node_queries root_node ids)
        = assign_all ?qs 1 (assign_node_ids root_node ids)"
    unfolding generate_node_queries_def Let_def walk_visits pending_root r
    by (simp add: visits_paths preorder_paths_children[of "[]" root_node])
  also have "\<dots> = assign_node_ids root_node ids"
    unfolding a by (rule assign_all_idem[OF d])
  finally show ?thesis .
qed

lemma create_nodes_ids:
  assumes "driver g = Some d" "\<not> closed d" "budget w = None"
  shows "fst (create_nodes g root_node ids w) = Inr (assign_node_ids root_node ids)"
proof -
  from execute_create_root[OF assms, of "''node_0''" "t_type root_node" "t_content root_node"]
  obtain rows w1 where e: "execute_query g q_create_root
                      [(''id'', StrV ''node_0''), (''type'', StrV (t_type root_node)),
                       (''content'', StrV (t_content root_node))] w = (Inr rows, w1)"
    and b: "budget w1 = None" by blast
  from run_visits_create[OF assms(1,2) b, of "visits [] root_node" 1 "ids([] \<mapsto> ''node_0'')"]
  obtain w2 where r: "run_visits (visit_create g) (visits [] root_node) (1, ids([] \<mapsto> ''node_0''), w1)
          = Inr (1 + length (visits [] root_node),
                 assign_all (map child_path (visits [] root_node)) 1 (ids([] \<mapsto> ''node_0'')), w2)"
    by blast
  have "create_nodes g root_node ids w
          = (Inr (assign_all (map child_path (visits [] root_node)) 1 (ids([] \<mapsto> ''node_0''))), w2)"
    unfolding create_nodes_def Let_def e walk_visits pending_root
    using r by simp
  then show ?thesis
    by (simp add: assign_node_ids_eq visits_paths preorder_paths_children[of "[]" root_node]
          node_name_0)
qed

text \<open>
  C2. For every tree, id assignment gives the root the id \<open>node_0\<close> and the node at
  position k of the pre-order traversal (the root at position 0, children in their stored
  order) the id \<open>node_k\<close>; ids of other paths are left alone. Repeating the assignment
  changes nothing, whatever ids the nodes had before. The script-generation path
  (\<open>_generate_node_queries\<close>) leaves the same ids, and so does the live-write path
  (\<open>_create_nodes\<close>) when the graph object is connected and no statement fails.
\<close>

theorem preorder_ids:
  "assign_node_ids root_node ids [] = Some ''node_0''
   \<and> hd (preorder_paths [] root_node) = []
   \<and> (\<forall>k<length (preorder_paths [] root_node).
         assign_node_ids root_node ids (preorder_paths [] root_node ! k)
           = Some (''node_'' @ str_of_nat k))
   \<and> (\<forall>q. q \<notin> set (preorder_paths [] root_node) \<longrightarrow> assign_node_ids root_node ids q = ids q)
   \<and> assign_node_ids root_node (assign_node_ids root_node ids) = assign_node_ids root_node ids
   \<and> snd (generate_node_queries root_node ids) = assign_node_ids root_node ids
   \<and> (driver g = Some d \<and> \<not> closed d \<and> budget w = None \<longrightarrow>
        fst (create_nodes g root_node ids w) = Inr (assign_node_ids root_node ids))"
proof -
  let ?pp = "preorder_paths [] root_node"
  have d: "distinct ?pp" by (rule paths_distinct)
  have h: "hd ?pp = []" by (simp add: preorder_paths_children[of "[]" root_node])
  have n: "\<forall>k<length ?pp. assign_node_ids root_node ids (?pp ! k) = Some (''node_'' @ str_of_nat k)"
    using assign_all_nth[OF d, of _ 0 ids] by (simp add: assign_node_ids_eq node_name_def)
  have z: "assign_node_ids root_node ids [] = Some ''node_0''"
    by (simp add: assign_node_ids_eq preorder_paths_children[of "[]" root_node]
          assign_all_other paths_prefix(2) node_name_0)
       (metis (no_types) paths_prefix(2) append_Nil list.distinct(1) assign_all_other fun_upd_same)
  have o: "\<forall>q. q \<notin> set ?pp \<longrightarrow> assign_node_ids root_node ids q = ids q"
    by (simp add: assign_node_ids_eq assign_all_other)
  have i: "assign_node_ids root_node (assign_node_ids root_node ids) = assign_node_ids root_node ids"
    by (simp add: assign_node_ids_eq assign_all_idem[OF d])
  show ?thesis
    using z h n o i generate_node_queries_ids create_nodes_ids by blast
qed

theorem preorder_ids_witness:
  "driver graph0 = Some (Driver False) \<and> \<not> closed (Driver False) \<and> budget world0 = None
   \<and> preorder_paths [] tree2 = [[], [0], [0, 0], [0, 1], [1]]
   \<and> map (assign_node_ids tree2 Map.empty) (preorder_paths [] tree2)
       = [Some ''node_0'', Some ''node_1'', Some ''node_2'', Some ''node_3'', Some ''node_4'']
   \<and> fst (create_nodes graph0 tree2 Map.empty world0) = Inr (assign_node_ids tree2 Map.empty)
   \<and> map p_id (db_nodes (snd (create_nodes graph0 tree2 Map.empty world0)))
       = [''node_0'', ''node_1'', ''node_2'', ''node_3'', ''node_4'']"
proof -
  have h: "driver graph0 = Some (Driver False) \<and> \<not> closed (Driver False) \<and> budget world0 = None"
    by (simp add: graph0_def world0_def)
  have p: "preorder_paths [] tree2 = [[], [0], [0, 0], [0, 1], [1]]"
    by code_simp
  have a: "map (assign_node_ids tree2 Map.empty) [[], [0], [0, 0], [0, 1], [1]]
       = [Some ''node_0'', Some ''node_1'', Some ''node_2'', Some ''node_3'', Some ''node_4'']"
    by code_simp
  have s: "map p_id (db_nodes (snd (create_nodes graph0 tree2 Map.empty world0)))
       = [''node_0'', ''node_1'', ''node_2'', ''node_3'', ''node_4'']"
    by code_simp
  from preorder_ids[of tree2 Map.empty graph0 "Driver False" world0] h
  have "fst (create_nodes graph0 tree2 Map.empty world0) = Inr (assign_node_ids tree2 Map.empty)"
    by blast
  then show ?thesis using h p a s by simp
qed

text \<open>
  C3. Every non-heading node's creation statement omits the level or passes it as absent,
  in both modes. The live-write path does not: for the tree with one paragraph under the
  root it sends the paragraph's statement with the parameter \<open>level = 0\<close>, and the store
  keeps \<open>level: 0\<close> on the paragraph. The script path omits the level for the same node.
\<close>

theorem live_paragraph_level_zero:
  "sent (snd (create_nodes graph0 tree_par Map.empty world0))
     = [(q_create_root, [(''id'', StrV ''node_0''), (''type'', StrV ''root''), (''content'', StrV [])]),
        (q_create_node, [(''id'', StrV ''node_1''), (''type'', StrV ''paragraph''),
                         (''content'', StrV ''P''), (''level'', IntV 0)])]
   \<and> db_nodes (snd (create_nodes graph0 tree_par Map.empty world0))
     = [\<lparr>p_id = ''node_0'', p_type = ''root'', p_content = [], p_level = None\<rparr>,
        \<lparr>p_id = ''node_1'', p_type = ''paragraph'', p_content = ''P'', p_level = Some 0\<rparr>]
   \<and> fst (generate_node_queries tree_par Map.empty)
     = [''CREATE (node_0:Node {id: '' @ sq @ ''node_0'' @ sq @ '', type: '' @ sq @ ''root'' @ sq
          @ '', content: '' @ sq @ sq @ ''});'',
        ''CREATE (node_1:Node {id: '' @ sq @ ''node_1'' @ sq @ '', type: '' @ sq @ ''paragraph'' @ sq
          @ '', content: '' @ sq @ ''P'' @ sq @ ''});'']"
  by code_simp

section \<open>Properties of the commands and of the parser\<close>

text \<open>
  C7. A command that has opened a connection closes it on every path, also when a later
  step raises. The commands call \<open>disconnect\<close> as the last statement of the \<open>try\<close> block only:
  when a statement fails after \<open>connect\<close> has succeeded (the first one, or the fourth,
  of create-graph; the second of traverse-graph), the command exits with code 1 and the
  driver of its graph object is still open. On the paths without failure the driver is
  closed.
\<close>

theorem connection_left_open_on_failure:
  "exit_code (cli_create_graph env1 ''doc.md'' None None None (world0\<lparr>budget := Some 0\<rparr>)) = 1
   \<and> map_option driver (graph (cli_create_graph env1 ''doc.md'' None None None (world0\<lparr>budget := Some 0\<rparr>)))
       = Some (Some (Driver False))
   \<and> stderr (after (cli_create_graph env1 ''doc.md'' None None None (world0\<lparr>budget := Some 0\<rparr>)))
       = [''ERROR: Error creating graph: ServiceUnavailable'']
   \<and> exit_code (cli_create_graph env1 ''doc.md'' None None None (world0\<lparr>budget := Some 3\<rparr>)) = 1
   \<and> map_option driver (graph (cli_create_graph env1 ''doc.md'' None None None (world0\<lparr>budget := Some 3\<rparr>)))
       = Some (Some (Driver False))
   \<and> exit_code (cli_traverse_graph env1 None None None (stored2\<lparr>budget := Some 1\<rparr>)) = 1
   \<and> map_option driver (graph (cli_traverse_graph env1 None None None (stored2\<lparr>budget := Some 1\<rparr>)))
       = Some (Some (Driver False))
   \<and> exit_code (cli_create_graph env1 ''doc.md'' None None None world0) = 0
   \<and> map_option driver (graph (cli_create_graph env1 ''doc.md'' None None None world0))
       = Some (Some (Driver True))
   \<and> exit_code (cli_traverse_graph env1 None None None stored2) = 0
   \<and> map_option driver (graph (cli_traverse_graph env1 None None None stored2))
       = Some (Some (Driver True))"
  by code_simp

text \<open>
  C8. Parsing the same text a second time with the same parser yields the same tree as
  the first parse. As stated, for every text and with nothing said about the engine, this
  fails: the parser reuses its engine without resetting it, and an engine whose element
  tree depends on its state (the placeholder of a raw HTML block carries the number of
  blocks stashed so far) gives the second parse a paragraph with another content.
\<close>

theorem parse_twice_counterexample:
  "fst (parse stash_engine (snd (parse stash_engine (new_parser 0) ''<div>x</div>'')) ''<div>x</div>'')
     \<noteq> fst (parse stash_engine (new_parser 0) ''<div>x</div>'')"
  by code_simp

text \<open>
  C8, amended. The result of a parse is that of running a fresh processor on the element
  tree the engine builds at that call; the parser carries nothing else from one parse to
  the next. So the second parse yields the same tree as the first (or raises the same
  exception) whenever the engine builds the same element tree for the text both times.
\<close>

theorem parse_idempotent:
  assumes "fst (engine (snd (engine (md parser) text)) text) = fst (engine (md parser) text)"
  shows "fst (parse engine (snd (parse engine parser text)) text) = fst (parse engine parser text)
   \<and> fst (parse engine parser text) = run (fst (engine (md parser) text))"
proof -
  obtain root m where e1: "engine (md parser) text = (root, m)"
    by (cases "engine (md parser) text")
  obtain root2 m2 where e2: "engine m text = (root2, m2)"
    by (cases "engine m text")
  have same: "root2 = root" using assms e1 e2 by simp
  have first: "fst (parse engine parser text) = process_element root init_processor"
    and state: "md (snd (parse engine parser text)) = m"
    by (simp_all add: parse_def Let_def e1 split: sum.splits)
  have second: "fst (parse engine (snd (parse engine parser text)) text)
                  = process_element root2 init_processor"
    by (simp add: parse_def[of engine "snd (parse engine parser text)"] Let_def state e2
             split: sum.splits)
  show ?thesis
    using first second same by (simp add: run_def e1)
qed

theorem parse_idempotent_witness:
  "fst (plain_engine (snd (plain_engine (md (new_parser 0)) ''# Header 1'')) ''# Header 1'')
     = fst (plain_engine (md (new_parser 0)) ''# Header 1'')
   \<and> fst (parse plain_engine (snd (parse plain_engine (new_parser 0) ''# Header 1'')) ''# Header 1'')
     = fst (parse plain_engine (new_parser 0) ''# Header 1'')
   \<and> fst (parse plain_engine (new_parser 0) ''# Header 1'') = Inr doc1_result"
proof -
  have h: "fst (plain_engine (snd (plain_engine (md (new_parser 0)) ''# Header 1'')) ''# Header 1'')
     = fst (plain_engine (md (new_parser 0)) ''# Header 1'')"
    by (simp add: plain_engine_def)
  have r: "run (fst (plain_engine (md (new_parser 0)) ''# Header 1'')) = Inr doc1_result"
    by code_simp
  from parse_idempotent[of plain_engine "new_parser 0" "''# Header 1''", OF h] r h
  show ?thesis by simp
qed

section \<open>Properties of the connection parameters\<close>

text \<open>
  C10. An explicitly passed empty string is treated as an absent value, for each of uri,
  username and password: replacing \<open>None\<close> by the empty string in any position does not
  change the result. In both cases resolution falls through: the parameter takes the
  value of its environment variable (\<open>NEO4J_URI\<close>, \<open>NEO4J_USERNAME\<close>,
  \<open>NEO4J_PASSWORD\<close>) when that variable is set, and the hard-coded default
  (\<open>bolt://localhost:7687\<close>, \<open>neo4j\<close>, \<open>neo4j\<close>) when it is not. Moreover, whatever is
  passed, a parameter whose environment variable is not set to the empty string (it is
  unset, so that the non-empty default applies, or set to a non-empty value) never
  resolves to the empty string.
\<close>

theorem credentials_empty_as_absent:
  "get_neo4j_credentials env (Some []) u p = get_neo4j_credentials env None u p
   \<and> get_neo4j_credentials env a (Some []) p = get_neo4j_credentials env a None p
   \<and> get_neo4j_credentials env a u (Some []) = get_neo4j_credentials env a u None
   \<and> fst (get_neo4j_credentials env None u p)
         = (case env ''NEO4J_URI'' of None \<Rightarrow> ''bolt://localhost:7687'' | Some v \<Rightarrow> v)
   \<and> fst (snd (get_neo4j_credentials env a None p))
         = (case env ''NEO4J_USERNAME'' of None \<Rightarrow> ''neo4j'' | Some v \<Rightarrow> v)
   \<and> snd (snd (get_neo4j_credentials env a u None))
         = (case env ''NEO4J_PASSWORD'' of None \<Rightarrow> ''neo4j'' | Some v \<Rightarrow> v)
   \<and> (env ''NEO4J_URI'' \<noteq> Some [] \<longrightarrow> fst (get_neo4j_credentials env a u p) \<noteq> [])
   \<and> (env ''NEO4J_USERNAME'' \<noteq> Some [] \<longrightarrow>
        fst (snd (get_neo4j_credentials env a u p)) \<noteq> [])
   \<and> (env ''NEO4J_PASSWORD'' \<noteq> Some [] \<longrightarrow>
        snd (snd (get_neo4j_credentials env a u p)) \<noteq> [])"
  by (auto simp: get_neo4j_credentials_def py_or_def environ_get_def Let_def
           split: option.splits)

theorem credentials_empty_as_absent_witness:
  "[''NEO4J_URI'' \<mapsto> ''bolt://db:7687''] ''NEO4J_URI'' \<noteq> Some []
   \<and> [''NEO4J_URI'' \<mapsto> ''bolt://db:7687''] ''NEO4J_USERNAME'' \<noteq> Some []
   \<and> [''NEO4J_URI'' \<mapsto> ''bolt://db:7687''] ''NEO4J_PASSWORD'' \<noteq> Some []
   \<and> get_neo4j_credentials [''NEO4J_URI'' \<mapsto> ''bolt://db:7687''] (Some []) (Some []) (Some [])
       = get_neo4j_credentials [''NEO4J_URI'' \<mapsto> ''bolt://db:7687''] None (Some []) (Some [])
   \<and> fst (get_neo4j_credentials [''NEO4J_URI'' \<mapsto> ''bolt://db:7687'']
              (Some []) (Some []) (Some [])) \<noteq> []
   \<and> get_neo4j_credentials [''NEO4J_URI'' \<mapsto> ''bolt://db:7687''] (Some []) (Some []) (Some [])
       = (''bolt://db:7687'', ''neo4j'', ''neo4j'')"
  using credentials_empty_as_absent
    [of "[''NEO4J_URI'' \<mapsto> ''bolt://db:7687'']" "Some []" "Some []" "Some []"]
  by (simp add: get_neo4j_credentials_def py_or_def environ_get_def)

end
